theory Spec2Isabelle
  imports Main "HOL-Library.Multiset"
begin

section \<open>Values and callables\<close>

text \<open>
  The event bus and the plugin manager of Attention OS (\<^verbatim>\<open>attention/core/event_bus.py\<close>,
  \<^verbatim>\<open>attention/core/plugin_manager.py\<close>) are embedded as pure functions on explicit
  state. The lock of the bus is not modelled: every function below is one atomic step of a
  single thread.

  Python values that travel in event data and in plugin configuration:
\<close>

datatype pyval =
    VNone
  | VBool bool
  | VInt int
  | VStr string
  | VList "pyval list"
  | VDict "(string \<times> pyval) list"

text \<open>Event data is a \<^verbatim>\<open>dict\<close>; its keys keep their insertion order.\<close>

type_synonym data = "(string \<times> pyval) list"

text \<open>
  What a call of foreign code (a handler, a plugin method) does to its caller: it returns, or
  it raises an instance of \<^verbatim>\<open>Exception\<close> whose \<^verbatim>\<open>str()\<close> is the given
  message. Raises outside the \<^verbatim>\<open>Exception\<close> hierarchy (\<^verbatim>\<open>KeyboardInterrupt\<close>,
  \<^verbatim>\<open>SystemExit\<close>) end the program and are not modelled.
\<close>

datatype outcome = Returned | Raised string

text \<open>
  A handler is a Python callable: \<open>obj_id\<close> is \<^verbatim>\<open>id(handler)\<close>, the identity that
  \<^verbatim>\<open>is\<close> compares, and \<open>call\<close> is what \<^verbatim>\<open>handler(event, data)\<close> does. Handlers
  that call back into the bus are outside this model.
\<close>

record callable =
  obj_id :: nat
  call :: "string \<Rightarrow> data \<Rightarrow> outcome"

section \<open>EventBus\<close>

text \<open>The listener entry built by \<^verbatim>\<open>EventBus.on\<close>.\<close>

record entry =
  e_id :: string
  e_handler :: callable
  e_priority :: int
  e_once :: bool
  e_source :: string

text \<open>The record appended by \<^verbatim>\<open>_record_history\<close>.\<close>

record history_record =
  h_event :: string
  h_timestamp :: string
  h_data_keys :: "string list"

text \<open>
  \<open>handlers\<close> is \<^verbatim>\<open>_handlers\<close>, a dict from event name to listener list;
  \<open>event_history\<close> is \<^verbatim>\<open>_event_history\<close>. \<open>now\<close> is the string that
  \<^verbatim>\<open>datetime.now().strftime("%H:%M:%S")\<close> returns at the moment of the call, an input of
  the environment.
\<close>

record event_bus =
  handlers :: "string \<rightharpoonup> entry list"
  event_history :: "history_record list"
  now :: string

text \<open>\<^verbatim>\<open>_history_limit\<close> is set to 100 in the constructor and never assigned again.\<close>

definition history_limit :: int where
  "history_limit = 100"

definition EventBus_init :: "string \<Rightarrow> event_bus" where
  "EventBus_init t = \<lparr> handlers = Map.empty, event_history = [], now = t \<rparr>"

subsection \<open>Formatting and slicing as Python does them\<close>

text \<open>\<^verbatim>\<open>str(n)\<close> for a non-negative integer: its decimal digits.\<close>

definition digit_char :: "nat \<Rightarrow> char" where
  "digit_char d = char_of (48 + d)"

fun str_nat :: "nat \<Rightarrow> string" where
  "str_nat n = (if n < 10 then [digit_char n] else str_nat (n div 10) @ [digit_char (n mod 10)])"

declare str_nat.simps [simp del]

text \<open>The slice \<^verbatim>\<open>xs[i:]\<close>: a negative \<open>i\<close> counts from the end, and the start is
  clamped to the list.\<close>

definition slice_from :: "'a list \<Rightarrow> int \<Rightarrow> 'a list" where
  "slice_from xs i =
     (if i < 0 then drop (nat (int (length xs) + i)) xs else drop (nat i) xs)"

text \<open>\<^verbatim>\<open>d.get(k, [])\<close> on the listener table.\<close>

definition get_list :: "(string \<rightharpoonup> entry list) \<Rightarrow> string \<Rightarrow> entry list" where
  "get_list m k = (case m k of None \<Rightarrow> [] | Some hs \<Rightarrow> hs)"

subsection \<open>on, off, off\_all\<close>

text \<open>\<^verbatim>\<open>listener_id = f"{event}:{id(handler)}:{source}"\<close>\<close>

definition listener_id :: "string \<Rightarrow> callable \<Rightarrow> string \<Rightarrow> string" where
  "listener_id event handler source =
     event @ '':'' @ str_nat (obj_id handler) @ '':'' @ source"

text \<open>
  \<^verbatim>\<open>on\<close> appends the entry to \<^verbatim>\<open>_handlers[event]\<close> (a \<^verbatim>\<open>defaultdict\<close>: a
  missing key starts as the empty list) and sorts the list by priority with Python's stable
  sort. It returns the listener id.
\<close>

definition on :: "event_bus \<Rightarrow> string \<Rightarrow> callable \<Rightarrow> int \<Rightarrow> bool \<Rightarrow> string \<Rightarrow> event_bus \<times> string" where
  "on b event handler priority once source =
     (let lid = listener_id event handler source;
          ent = \<lparr> e_id = lid, e_handler = handler, e_priority = priority,
                  e_once = once, e_source = source \<rparr>
      in (b\<lparr> handlers := (handlers b)(event \<mapsto>
                sort_key e_priority (get_list (handlers b) event @ [ent])) \<rparr>, lid))"

definition off :: "event_bus \<Rightarrow> string \<Rightarrow> callable option \<Rightarrow> string option \<Rightarrow> event_bus" where
  "off b event handler source =
     (case handlers b event of
        None \<Rightarrow> b
      | Some hs \<Rightarrow>
          (case handler of
             Some f \<Rightarrow> b\<lparr> handlers := (handlers b)(event \<mapsto>
                          filter (\<lambda>h. obj_id (e_handler h) \<noteq> obj_id f) hs) \<rparr>
           | None \<Rightarrow>
               (case source of
                  Some s \<Rightarrow> b\<lparr> handlers := (handlers b)(event \<mapsto>
                               filter (\<lambda>h. e_source h \<noteq> s) hs) \<rparr>
                | None \<Rightarrow> b\<lparr> handlers := (handlers b)(event \<mapsto> []) \<rparr>)))"

definition off_all :: "event_bus \<Rightarrow> string \<Rightarrow> event_bus" where
  "off_all b source =
     b\<lparr> handlers := (\<lambda>event. map_option (filter (\<lambda>h. e_source h \<noteq> source)) (handlers b event)) \<rparr>"

subsection \<open>emit\<close>

definition record_history :: "event_bus \<Rightarrow> string \<Rightarrow> data \<Rightarrow> event_bus" where
  "record_history b event d =
     (let rec = \<lparr> h_event = event, h_timestamp = now b, h_data_keys = map fst d \<rparr>;
          hist = event_history b @ [rec]
      in b\<lparr> event_history :=
              (if int (length hist) > history_limit then slice_from hist (- history_limit)
               else hist) \<rparr>)"

text \<open>One handler call made by \<^verbatim>\<open>emit\<close>, and one line written by \<^verbatim>\<open>logger.error\<close>.\<close>

record invocation =
  inv_entry :: entry
  inv_event :: string
  inv_data :: data

record error_log =
  log_event :: string
  log_source :: string
  log_message :: string

text \<open>
  The \<^verbatim>\<open>try ... except Exception\<close> around one handler call: what
  \<^verbatim>\<open>logger.error\<close> writes for it, with the entry's source.
\<close>

definition logged_for :: "string \<Rightarrow> data \<Rightarrow> entry \<Rightarrow> error_log list" where
  "logged_for event d ent =
     (case call (e_handler ent) event d of
        Returned \<Rightarrow> []
      | Raised msg \<Rightarrow> [\<lparr> log_event = event, log_source = e_source ent, log_message = msg \<rparr>])"

text \<open>
  The dispatch loop of \<^verbatim>\<open>emit\<close>. Each entry's handler is called and a raise is
  logged; after the \<^verbatim>\<open>try\<close> statement the id of a \<^verbatim>\<open>once\<close> entry is appended
  to \<^verbatim>\<open>once_ids\<close>. The result is the calls made, the lines logged and the final
  \<^verbatim>\<open>once_ids\<close>.
\<close>

fun dispatch :: "entry list \<Rightarrow> string \<Rightarrow> data \<Rightarrow> string list
    \<Rightarrow> invocation list \<times> error_log list \<times> string list" where
  "dispatch [] event d once_ids = ([], [], once_ids)"
| "dispatch (ent # rest) event d once_ids =
     (let logged = logged_for event d ent;
          once_ids' = (if e_once ent then once_ids @ [e_id ent] else once_ids);
          (calls, logs, ids) = dispatch rest event d once_ids'
      in (\<lparr> inv_entry = ent, inv_event = event, inv_data = d \<rparr> # calls, logged @ logs, ids))"

text \<open>The snapshot taken under the lock: \<^verbatim>\<open>sorted(exact + wildcard, key=priority)\<close>.\<close>

definition all_handlers :: "event_bus \<Rightarrow> string \<Rightarrow> entry list" where
  "all_handlers b event =
     sort_key e_priority (get_list (handlers b) event @ get_list (handlers b) ''*'')"

text \<open>The cleanup of one-shot listeners for one key of \<^verbatim>\<open>[event, "*"]\<close>.\<close>

definition remove_once :: "string list \<Rightarrow> string \<Rightarrow> (string \<rightharpoonup> entry list) \<Rightarrow> (string \<rightharpoonup> entry list)" where
  "remove_once once_ids evt_key m =
     (case m evt_key of
        None \<Rightarrow> m
      | Some hs \<Rightarrow> m(evt_key \<mapsto> filter (\<lambda>h. e_id h \<notin> set once_ids) hs))"

definition emit :: "event_bus \<Rightarrow> string \<Rightarrow> data option
    \<Rightarrow> event_bus \<times> invocation list \<times> error_log list" where
  "emit b event data_opt =
     (let d = (case data_opt of None \<Rightarrow> [] | Some x \<Rightarrow> x);
          b1 = record_history b event d;
          (calls, logs, once_ids) = dispatch (all_handlers b1 event) event d [];
          b2 = (if once_ids \<noteq> []
                then b1\<lparr> handlers :=
                       remove_once once_ids ''*'' (remove_once once_ids event (handlers b1)) \<rparr>
                else b1)
      in (b2, calls, logs))"

definition get_history :: "event_bus \<Rightarrow> int \<Rightarrow> history_record list" where
  "get_history b limit = slice_from (event_history b) (- limit)"

subsection \<open>Sequences of bus calls\<close>

text \<open>
  One call on the bus by any client. \<open>Clock t\<close> is not a call: it says that the wall clock
  reads \<open>t\<close> from here on.
\<close>

datatype bus_op =
    On string callable int bool string
  | Off string "callable option" "string option"
  | OffAll string
  | Emit string "data option"
  | Clock string

fun apply_op :: "event_bus \<Rightarrow> bus_op \<Rightarrow> event_bus" where
  "apply_op b (On event handler priority once source) =
     fst (on b event handler priority once source)"
| "apply_op b (Off event handler source) = off b event handler source"
| "apply_op b (OffAll source) = off_all b source"
| "apply_op b (Emit event d) = fst (emit b event d)"
| "apply_op b (Clock t) = b\<lparr> now := t \<rparr>"

definition run_ops :: "event_bus \<Rightarrow> bus_op list \<Rightarrow> event_bus" where
  "run_ops b ops = foldl apply_op b ops"



text \<open>A run of subscriptions: the arguments of each \<^verbatim>\<open>on\<close> call, in call order.\<close>

record registration =
  reg_event :: string
  reg_handler :: callable
  reg_priority :: int
  reg_once :: bool
  reg_source :: string

definition subscribe_all :: "event_bus \<Rightarrow> registration list \<Rightarrow> event_bus" where
  "subscribe_all b regs =
     foldl (\<lambda>b r. fst (on b (reg_event r) (reg_handler r) (reg_priority r) (reg_once r)
                          (reg_source r))) b regs"

text \<open>The entry that \<^verbatim>\<open>on\<close> builds for a registration.\<close>

definition entry_of :: "registration \<Rightarrow> entry" where
  "entry_of r =
     \<lparr> e_id = listener_id (reg_event r) (reg_handler r) (reg_source r),
       e_handler = reg_handler r, e_priority = reg_priority r,
       e_once = reg_once r, e_source = reg_source r \<rparr>"

section \<open>Plugins\<close>

text \<open>\<^verbatim>\<open>PluginMeta\<close> and its \<^verbatim>\<open>to_dict\<close>.\<close>

record plugin_meta =
  meta_name :: string
  meta_display_name :: string
  meta_description :: string
  meta_version :: string
  meta_author :: string
  meta_plugin_type :: string
  meta_homepage :: string
  meta_tags :: "string list"

definition to_dict :: "plugin_meta \<Rightarrow> data" where
  "to_dict m =
     [(''name'', VStr (meta_name m)),
      (''display_name'', VStr (meta_display_name m)),
      (''description'', VStr (meta_description m)),
      (''version'', VStr (meta_version m)),
      (''author'', VStr (meta_author m)),
      (''plugin_type'', VStr (meta_plugin_type m)),
      (''homepage'', VStr (meta_homepage m)),
      (''tags'', VList (map VStr (meta_tags m)))]"

text \<open>A plugin configuration is a \<^verbatim>\<open>dict\<close> compared by content.\<close>

type_synonym config = "string \<rightharpoonup> pyval"

text \<open>
  A plugin instance, as far as the manager drives it. The bodies of \<^verbatim>\<open>activate()\<close> and
  \<^verbatim>\<open>deactivate()\<close> are the calls they make on the injected bus, in order, and then how
  they end: a body that raises has made the calls listed before the raise.
  \<^verbatim>\<open>on_config_changed\<close> of \<^verbatim>\<open>BasePlugin\<close> stores the configuration it is given,
  which the manager has already stored; an override is known by how it ends.
\<close>

record plugin =
  get_meta :: plugin_meta
  get_default_config :: config
  activate :: "bus_op list \<times> outcome"
  deactivate :: "bus_op list \<times> outcome"
  on_config_changed :: "config \<Rightarrow> outcome"

section \<open>PluginManager\<close>

text \<open>
  One value of \<^verbatim>\<open>_configs\<close> and of the persisted document: a dict with the optional
  keys \<^verbatim>\<open>"enabled"\<close> and \<^verbatim>\<open>"config"\<close>.
\<close>

record saved =
  saved_enabled :: "bool option"
  saved_config :: "config option"

text \<open>The file \<^verbatim>\<open>data/plugin_configs.json\<close>.\<close>

datatype config_file = Missing | Unreadable | Document "string \<rightharpoonup> saved"

text \<open>One value of \<^verbatim>\<open>_plugins\<close>; \<open>r_config\<close> is \<^verbatim>\<open>instance.config\<close>.\<close>

record registry_entry =
  r_instance :: plugin
  r_config :: config
  r_meta :: plugin_meta
  r_active :: bool
  r_error :: "string option"
  r_dir :: string

text \<open>
  The manager with the bus it shares and the file it writes. \<open>file_writable\<close> is the
  environment: whether opening the file for writing succeeds or raises \<^verbatim>\<open>IOError\<close>.
\<close>

record plugin_manager =
  plugins :: "string \<rightharpoonup> registry_entry"
  bus :: event_bus
  configs :: "string \<rightharpoonup> saved"
  config_file :: config_file
  file_writable :: bool

definition load_configs :: "config_file \<Rightarrow> (string \<rightharpoonup> saved)" where
  "load_configs f = (case f of Document doc \<Rightarrow> doc | Missing \<Rightarrow> Map.empty | Unreadable \<Rightarrow> Map.empty)"

definition PluginManager_init :: "event_bus \<Rightarrow> config_file \<Rightarrow> bool \<Rightarrow> plugin_manager" where
  "PluginManager_init b f w =
     \<lparr> plugins = Map.empty, bus = b, configs = load_configs f, config_file = f,
       file_writable = w \<rparr>"

text \<open>
  \<^verbatim>\<open>_save_configs\<close> rewrites the whole document; an \<^verbatim>\<open>IOError\<close> is logged and the
  file stays as it was. \<^verbatim>\<open>Config.ensure_dirs()\<close> belongs to a module that is not part
  of these sources; it creates the data directory and touches nothing modelled here.
\<close>

definition save_configs :: "plugin_manager \<Rightarrow> plugin_manager" where
  "save_configs m = (if file_writable m then m\<lparr> config_file := Document (configs m) \<rparr> else m)"

text \<open>The keyword argument of \<^verbatim>\<open>_update_config\<close>: \<^verbatim>\<open>enabled=...\<close> or \<^verbatim>\<open>config=...\<close>.\<close>

datatype update = Enabled bool | NewConfig config

definition update_config :: "plugin_manager \<Rightarrow> string \<Rightarrow> update \<Rightarrow> plugin_manager" where
  "update_config m name upd =
     (let cur = (case configs m name of
                   None \<Rightarrow> \<lparr> saved_enabled = None, saved_config = None \<rparr>
                 | Some s \<Rightarrow> s);
          new = (case upd of
                   Enabled v \<Rightarrow> cur\<lparr> saved_enabled := Some v \<rparr>
                 | NewConfig c \<Rightarrow> cur\<lparr> saved_config := Some c \<rparr>)
      in save_configs (m\<lparr> configs := (configs m)(name \<mapsto> new) \<rparr>))"

subsection \<open>Activation and deactivation\<close>

text \<open>
  \<^verbatim>\<open>activate_plugin\<close> runs the plugin's \<^verbatim>\<open>activate()\<close> inside
  \<^verbatim>\<open>try ... except Exception\<close>. What follows the plugin's own code inside the
  \<^verbatim>\<open>try\<close> cannot raise: \<^verbatim>\<open>emit\<close> catches what handlers raise and
  \<^verbatim>\<open>_save_configs\<close> catches a failed write. So the \<^verbatim>\<open>except\<close> branch is taken
  exactly when \<^verbatim>\<open>activate()\<close> raises, after the calls it made on the bus.
  \<^verbatim>\<open>deactivate_plugin\<close> runs \<^verbatim>\<open>deactivate()\<close> inside its own \<^verbatim>\<open>try\<close> and
  goes on in either case.
\<close>

definition activate_plugin :: "plugin_manager \<Rightarrow> string \<Rightarrow> plugin_manager \<times> bool" where
  "activate_plugin m name =
     (case plugins m name of
        None \<Rightarrow> (m, False)
      | Some ent \<Rightarrow>
          if r_active ent then (m, True)
          else
            (let (calls, ending) = activate (r_instance ent);
                 m1 = m\<lparr> bus := run_ops (bus m) calls \<rparr>
             in case ending of
                  Returned \<Rightarrow>
                    (let m2 = m1\<lparr> plugins := (plugins m1)(name \<mapsto>
                                 ent\<lparr> r_active := True, r_error := None \<rparr>) \<rparr>;
                         m3 = update_config m2 name (Enabled True);
                         m4 = m3\<lparr> bus := fst (emit (bus m3) ''plugin.activated''
                                 (Some [(''name'', VStr name)])) \<rparr>
                     in (m4, True))
                | Raised msg \<Rightarrow>
                    (let m2 = m1\<lparr> plugins := (plugins m1)(name \<mapsto>
                                 ent\<lparr> r_error := Some msg \<rparr>) \<rparr>;
                         m3 = m2\<lparr> bus := fst (emit (bus m2) ''plugin.error''
                                 (Some [(''name'', VStr name), (''error'', VStr msg)])) \<rparr>
                     in (m3, False))))"

definition deactivate_plugin :: "plugin_manager \<Rightarrow> string \<Rightarrow> plugin_manager \<times> bool" where
  "deactivate_plugin m name =
     (case plugins m name of
        None \<Rightarrow> (m, False)
      | Some ent \<Rightarrow>
          if \<not> r_active ent then (m, True)
          else
            (let (calls, ending) = deactivate (r_instance ent);
                 m1 = m\<lparr> bus := run_ops (bus m) calls \<rparr>;
                 m2 = m1\<lparr> bus := off_all (bus m1) name \<rparr>;
                 m3 = m2\<lparr> plugins := (plugins m2)(name \<mapsto>
                         ent\<lparr> r_active := False, r_error := None \<rparr>) \<rparr>;
                 m4 = update_config m3 name (Enabled False);
                 m5 = m4\<lparr> bus := fst (emit (bus m4) ''plugin.deactivated''
                         (Some [(''name'', VStr name)])) \<rparr>
             in (m5, True)))"

definition is_active :: "plugin_manager \<Rightarrow> string \<Rightarrow> bool" where
  "is_active m name = (case plugins m name of None \<Rightarrow> False | Some ent \<Rightarrow> r_active ent)"

subsection \<open>Configuration\<close>


subsection \<open>Discovery and loading\<close>

text \<open>
  One attribute of a loaded module, as the scan of \<^verbatim>\<open>_load_plugin\<close> sees it:
  \<^verbatim>\<open>isinstance(attr, type)\<close>, \<^verbatim>\<open>issubclass(attr, BasePlugin)\<close>,
  \<^verbatim>\<open>attr is BasePlugin\<close>, \<^verbatim>\<open>attr.__name__\<close>, \<^verbatim>\<open>attr.__module__\<close>, and what
  calling it without arguments gives: an instance, or the message of the exception raised
  (an abstract class raises \<^verbatim>\<open>TypeError\<close>).
\<close>

record attr =
  attr_name :: string
  is_type :: bool
  is_subclass_of_BasePlugin :: bool
  is_BasePlugin :: bool
  dunder_name :: string
  dunder_module :: string
  construct :: "string + plugin"

text \<open>
  What importing \<^verbatim>\<open>plugin.py\<close> gives: no spec or no loader, an exception while the
  module body runs, or the module, given by its attributes in the order of
  \<^verbatim>\<open>dir(module)\<close> (sorted by name).
\<close>

datatype module_load = NoSpec | ExecRaises string | Module "attr list"

record plugin_file =
  pf_parent :: string
  pf_module :: module_load

datatype import_reason = CannotLoadModule | NoBasePluginSubclass

datatype load_error = ImportError import_reason | ForeignException string

definition startswith :: "string \<Rightarrow> char \<Rightarrow> bool" where
  "startswith s c = (case s of [] \<Rightarrow> False | x # _ \<Rightarrow> x = c)"

text \<open>The test of the scan for the plugin class.\<close>

definition is_plugin_class :: "string \<Rightarrow> attr \<Rightarrow> bool" where
  "is_plugin_class module_name a \<longleftrightarrow>
     is_type a \<and> is_subclass_of_BasePlugin a \<and> \<not> is_BasePlugin a
     \<and> \<not> startswith (dunder_name a) CHR ''_''
     \<and> dunder_module a = module_name"

text \<open>The scan: the first attribute that passes the test ends the loop.\<close>

fun find_plugin_class :: "string \<Rightarrow> attr list \<Rightarrow> attr option" where
  "find_plugin_class module_name [] = None"
| "find_plugin_class module_name (a # rest) =
     (if is_plugin_class module_name a then Some a
      else find_plugin_class module_name rest)"

text \<open>
  \<^verbatim>\<open>self._configs.get(name, {}).get("config", {})\<close> and
  \<^verbatim>\<open>self._configs.get(name, {}).get("enabled", False)\<close>.
\<close>

definition saved_config_of :: "(string \<rightharpoonup> saved) \<Rightarrow> string \<Rightarrow> config" where
  "saved_config_of cs name =
     (case cs name of
        None \<Rightarrow> Map.empty
      | Some s \<Rightarrow> (case saved_config s of None \<Rightarrow> Map.empty | Some c \<Rightarrow> c))"

definition saved_enabled_of :: "(string \<rightharpoonup> saved) \<Rightarrow> string \<Rightarrow> bool" where
  "saved_enabled_of cs name =
     (case cs name of
        None \<Rightarrow> False
      | Some s \<Rightarrow> (case saved_enabled s of None \<Rightarrow> False | Some v \<Rightarrow> v))"

definition load_plugin :: "plugin_manager \<Rightarrow> string \<Rightarrow> plugin_file \<Rightarrow> load_error + plugin_manager" where
  "load_plugin m dir_name file =
     (let module_name = ''plugins.'' @ dir_name @ ''.plugin'' in
      case pf_module file of
        NoSpec \<Rightarrow> Inl (ImportError CannotLoadModule)
      | ExecRaises msg \<Rightarrow> Inl (ForeignException msg)
      | Module attrs \<Rightarrow>
          (case find_plugin_class module_name attrs of
             None \<Rightarrow> Inl (ImportError NoBasePluginSubclass)
           | Some plugin_class \<Rightarrow>
               (case construct plugin_class of
                  Inl msg \<Rightarrow> Inl (ForeignException msg)
                | Inr inst \<Rightarrow>
                    (let meta = get_meta inst; name = meta_name meta in
                     if plugins m name \<noteq> None then Inr m
                     else
                       (let default_config = get_default_config inst;
                            saved = saved_config_of (configs m) name;
                            merged = default_config ++ saved;
                            m1 = m\<lparr> plugins := (plugins m)(name \<mapsto>
                                    \<lparr> r_instance = inst, r_config = merged, r_meta = meta,
                                      r_active = False, r_error = None,
                                      r_dir = pf_parent file \<rparr>) \<rparr>;
                            m2 = (if saved_enabled_of (configs m1) name
                                  then fst (activate_plugin m1 name) else m1)
                        in Inr (m2\<lparr> bus := fst (emit (bus m2) ''plugin.loaded''
                                  (Some [(''name'', VStr name),
                                         (''meta'', VDict (to_dict meta))])) \<rparr>))))))"

text \<open>
  One entry of a plugin directory: its name, whether it is a directory, and its
  \<^verbatim>\<open>plugin.py\<close> when that exists. A plugin directory: whether it exists, and its entries
  in the order of \<^verbatim>\<open>sorted(plugin_dir.iterdir())\<close>.
\<close>

record candidate =
  cand_name :: string
  cand_is_dir :: bool
  cand_plugin_file :: "plugin_file option"

record plugin_dir =
  dir_exists :: bool
  dir_entries :: "candidate list"

text \<open>The inner loop of \<^verbatim>\<open>discover_plugins\<close>: an exception of a load is logged and the
  loop goes on.\<close>

fun scan_candidates :: "plugin_manager \<Rightarrow> candidate list \<Rightarrow> plugin_manager" where
  "scan_candidates m [] = m"
| "scan_candidates m (c # cs) =
     (if \<not> cand_is_dir c then scan_candidates m cs
      else if startswith (cand_name c) CHR ''_'' \<or> startswith (cand_name c) CHR ''.''
        then scan_candidates m cs
      else case cand_plugin_file c of
             None \<Rightarrow> scan_candidates m cs
           | Some file \<Rightarrow>
               (case load_plugin m (cand_name c) file of
                  Inl err \<Rightarrow> scan_candidates m cs
                | Inr m' \<Rightarrow> scan_candidates m' cs))"

fun discover_plugins :: "plugin_manager \<Rightarrow> plugin_dir list \<Rightarrow> plugin_manager" where
  "discover_plugins m [] = m"
| "discover_plugins m (d # ds) =
     (if \<not> dir_exists d then discover_plugins m ds
      else discover_plugins (scan_candidates m (dir_entries d)) ds)"

section \<open>Notions of the specification and of the proofs\<close>

text \<open>The listeners under one event that carry a source tag.\<close>

definition tagged :: "event_bus \<Rightarrow> string \<Rightarrow> string \<Rightarrow> entry list" where
  "tagged b source event = filter (\<lambda>h. e_source h = source) (get_list (handlers b) event)"


text \<open>The most recent \<open>n\<close> records of a history, newest last.\<close>

definition most_recent :: "nat \<Rightarrow> 'a list \<Rightarrow> 'a list" where
  "most_recent n xs = drop (length xs - n) xs"


text \<open>
  The dispatch order in the specification's words: the listeners registered under the event
  or under the wildcard, by priority ascending, ties by registration sequence over the whole
  merged set. (A stable sort of the registrations in call order is exactly that.)
\<close>

definition spec_dispatch_order :: "registration list \<Rightarrow> string \<Rightarrow> entry list" where
  "spec_dispatch_order regs event =
     sort_key e_priority
       (map entry_of (filter (\<lambda>r. reg_event r = event \<or> reg_event r = ''*'') regs))"

text \<open>
  The listeners still subscribed after a run of calls, per event and in registration order:
  \<^verbatim>\<open>on\<close> adds the new entry at the end, the removals of \<^verbatim>\<open>off\<close>,
  \<^verbatim>\<open>off_all\<close> and of a publish (its one-shot listeners) take entries out, and nothing is
  ever reordered.
\<close>

fun live_step :: "(string \<Rightarrow> entry list) \<Rightarrow> bus_op \<Rightarrow> (string \<Rightarrow> entry list)" where
  "live_step L (On event handler priority once source) =
     L(event := L event @
         [\<lparr> e_id = listener_id event handler source, e_handler = handler,
            e_priority = priority, e_once = once, e_source = source \<rparr>])"
| "live_step L (Off event handler source) =
     L(event :=
         (case handler of
            Some f \<Rightarrow> filter (\<lambda>h. obj_id (e_handler h) \<noteq> obj_id f) (L event)
          | None \<Rightarrow>
              (case source of
                 Some s \<Rightarrow> filter (\<lambda>h. e_source h \<noteq> s) (L event)
               | None \<Rightarrow> [])))"
| "live_step L (OffAll source) = (\<lambda>event. filter (\<lambda>h. e_source h \<noteq> source) (L event))"
| "live_step L (Emit event d) =
     (\<lambda>k. if k = event \<or> k = ''*''
          then filter (\<lambda>h. e_id h \<notin> set (map e_id (filter e_once (L event @ L ''*'')))) (L k)
          else L k)"
| "live_step L (Clock t) = L"

definition live :: "bus_op list \<Rightarrow> string \<Rightarrow> entry list" where
  "live ops = foldl live_step (\<lambda>event. []) ops"




text \<open>The manager right after \<^verbatim>\<open>_load_plugin\<close> has stored the registry entry of a new
  instance.\<close>

definition registered :: "plugin_manager \<Rightarrow> plugin_file \<Rightarrow> plugin \<Rightarrow> plugin_manager" where
  "registered m file inst =
     m\<lparr> plugins := (plugins m)(meta_name (get_meta inst) \<mapsto>
         \<lparr> r_instance = inst,
           r_config = get_default_config inst ++ saved_config_of (configs m) (meta_name (get_meta inst)),
           r_meta = get_meta inst, r_active = False, r_error = None, r_dir = pf_parent file \<rparr>) \<rparr>"

section \<open>Example values\<close>

text \<open>A handler that returns and a handler that raises.\<close>

definition quiet :: "nat \<Rightarrow> callable" where
  "quiet n = \<lparr> obj_id = n, call = (\<lambda>event d. Returned) \<rparr>"

definition failing :: "nat \<Rightarrow> string \<Rightarrow> callable" where
  "failing n msg = \<lparr> obj_id = n, call = (\<lambda>event d. Raised msg) \<rparr>"

text \<open>A subscription with the defaults \<^verbatim>\<open>once=False\<close> and \<^verbatim>\<open>source=""\<close>.\<close>

definition reg :: "string \<Rightarrow> callable \<Rightarrow> int \<Rightarrow> registration" where
  "reg event f p =
     \<lparr> reg_event = event, reg_handler = f, reg_priority = p, reg_once = False,
       reg_source = [] \<rparr>"

definition fresh_bus :: event_bus where
  "fresh_bus = EventBus_init ''09:00:00''"


text \<open>A wildcard listener registered before a listener of the event, both of priority 5.\<close>

definition wildcard_first :: "registration list" where
  "wildcard_first = [reg ''*'' (quiet 1) 5, reg ''e'' (quiet 2) 5]"

text \<open>The priorities 10, 5, 5, 20 registered in that order on one event.\<close>

definition four_priorities :: "registration list" where
  "four_priorities =
     [reg ''e'' (quiet 1) 10, reg ''e'' (quiet 2) 5, reg ''e'' (quiet 3) 5, reg ''e'' (quiet 4) 20]"

text \<open>A wildcard listener of priority 1 and a listener of the event of priority 100.\<close>

definition wildcard_and_exact :: "registration list" where
  "wildcard_and_exact = [reg ''e'' (quiet 1) 100, reg ''*'' (quiet 2) 1]"

text \<open>Three listeners of one event, the first of which raises.\<close>

definition first_raises :: "registration list" where
  "first_raises =
     [\<lparr> reg_event = ''e'', reg_handler = failing 1 ''boom'', reg_priority = 100,
        reg_once = False, reg_source = ''p1'' \<rparr>,
      \<lparr> reg_event = ''e'', reg_handler = quiet 2, reg_priority = 100,
        reg_once = False, reg_source = ''p2'' \<rparr>,
      \<lparr> reg_event = ''e'', reg_handler = quiet 3, reg_priority = 100,
        reg_once = False, reg_source = ''p3'' \<rparr>]"


text \<open>A one-shot listener on the wildcard.\<close>


definition once_on_wildcard :: event_bus where
  "once_on_wildcard = fst (on fresh_bus ''*'' (quiet 1) 100 True [])"

text \<open>A one-shot listener on an ordinary event.\<close>

definition once_on_event :: event_bus where
  "once_on_event = fst (on fresh_bus ''e'' (quiet 1) 100 True [])"

text \<open>Metadata with a name and the defaults of \<^verbatim>\<open>PluginMeta\<close>.\<close>

definition meta_named :: "string \<Rightarrow> plugin_meta" where
  "meta_named n =
     \<lparr> meta_name = n, meta_display_name = n, meta_description = [],
       meta_version = ''0.1.0'', meta_author = [], meta_plugin_type = ''general'',
       meta_homepage = [], meta_tags = [] \<rparr>"

text \<open>A plugin with the given \<^verbatim>\<open>activate()\<close> body and nothing else of its own.\<close>

definition simple_plugin :: "string \<Rightarrow> bus_op list \<times> outcome \<Rightarrow> plugin" where
  "simple_plugin n body =
     \<lparr> get_meta = meta_named n, get_default_config = Map.empty, activate = body,
       deactivate = ([], Returned), on_config_changed = (\<lambda>c. Returned) \<rparr>"

text \<open>
  A plugin whose \<^verbatim>\<open>activate()\<close> subscribes two listeners under its name, whose
  \<^verbatim>\<open>deactivate()\<close> does nothing, and whose defaults are \<^verbatim>\<open>{"a": 1, "b": 2}\<close>.
\<close>

definition demo_plugin :: plugin where
  "demo_plugin =
     (simple_plugin ''demo''
        ([On ''e'' (quiet 1) 100 False ''demo'', On ''*'' (quiet 2) 100 False ''demo''], Returned))
       \<lparr> get_default_config := [''a'' \<mapsto> VInt 1, ''b'' \<mapsto> VInt 2] \<rparr>"

text \<open>A plugin whose \<^verbatim>\<open>activate()\<close> subscribes one listener under its name and then raises.\<close>

definition leaky_plugin :: plugin where
  "leaky_plugin =
     simple_plugin ''leaky'' ([On ''e'' (quiet 1) 100 False ''leaky''], Raised ''boom'')"

text \<open>
  A class defined in a module that subclasses \<^verbatim>\<open>BasePlugin\<close> and constructs the given
  instance, and \<^verbatim>\<open>BasePlugin\<close> itself as a module sees it after importing it.
\<close>

definition plugin_class :: "string \<Rightarrow> string \<Rightarrow> plugin \<Rightarrow> attr" where
  "plugin_class cname module_name p =
     \<lparr> attr_name = cname, is_type = True, is_subclass_of_BasePlugin = True,
       is_BasePlugin = False, dunder_name = cname, dunder_module = module_name,
       construct = Inr p \<rparr>"

definition base_import :: attr where
  "base_import =
     \<lparr> attr_name = ''BasePlugin'', is_type = True, is_subclass_of_BasePlugin = True,
       is_BasePlugin = True, dunder_name = ''BasePlugin'',
       dunder_module = ''attention.core.plugin_interface'',
       construct = Inl ''TypeError'' \<rparr>"

definition demo_file :: plugin_file where
  "demo_file =
     \<lparr> pf_parent = ''plugins/demo'',
       pf_module = Module [base_import, plugin_class ''DemoPlugin'' ''plugins.demo.plugin'' demo_plugin] \<rparr>"

definition leaky_file :: plugin_file where
  "leaky_file =
     \<lparr> pf_parent = ''plugins/leaky'',
       pf_module = Module [base_import, plugin_class ''LeakyPlugin'' ''plugins.leaky.plugin'' leaky_plugin] \<rparr>"







text \<open>A new manager without a configuration file, and one whose file holds
  \<^verbatim>\<open>{"demo": {"config": {"a": 9}}}\<close>.\<close>

definition new_manager :: plugin_manager where
  "new_manager = PluginManager_init fresh_bus Missing True"


text \<open>The manager after loading the leaky plugin, and after loading and activating the demo
  plugin.\<close>

definition leaky_registered :: plugin_manager where
  "leaky_registered = projr (load_plugin new_manager ''leaky'' leaky_file)"



lemma pf_parent_demo_file [simp]: "pf_parent demo_file = ''plugins/demo''"
  by (simp add: demo_file_def)

section \<open>Python formatting and slicing\<close>

lemma digit_char_code: "d < 10 \<Longrightarrow> digit_char d = ''0123456789'' ! d"
proof -
  assume "d < 10"
  then have "d = 0 \<or> d = 1 \<or> d = 2 \<or> d = 3 \<or> d = 4 \<or> d = 5 \<or> d = 6 \<or> d = 7 \<or> d = 8 \<or> d = 9"
    by arith
  then show ?thesis
    by (elim disjE) (simp_all add: digit_char_def char_of_eq_iff)
qed








lemma slice_from_neg: "0 < n \<Longrightarrow> slice_from xs (- int n) = most_recent n xs"
  by (auto simp: slice_from_def most_recent_def nat_diff_distrib' simp flip: of_nat_diff)

lemma slice_from_zero: "slice_from xs 0 = xs"
  by (simp add: slice_from_def)


section \<open>The event history\<close>

lemma event_history_record_history:
  "event_history (record_history b event d) =
     most_recent 100 (event_history b @ [\<lparr> h_event = event, h_timestamp = now b,
        h_data_keys = map fst d \<rparr>])"
proof -
  have "slice_from xs (- 100) = most_recent 100 xs" for xs :: "history_record list"
    using slice_from_neg [of 100 xs] by simp
  then show ?thesis
    by (simp add: record_history_def Let_def history_limit_def) (simp add: most_recent_def)
qed

lemma event_history_emit_record:
  "event_history (fst (emit b event d)) =
     event_history (record_history b event (case d of None \<Rightarrow> [] | Some x \<Rightarrow> x))"
  by (simp add: emit_def Let_def case_prod_beta)

lemma event_history_emit:
  "event_history (fst (emit b event d)) =
     most_recent 100 (event_history b @ [\<lparr> h_event = event, h_timestamp = now b,
        h_data_keys = map fst (case d of None \<Rightarrow> [] | Some x \<Rightarrow> x) \<rparr>])"
  by (simp only: event_history_emit_record event_history_record_history)


lemma length_history_apply_op:
  "length (event_history b) \<le> 100 \<Longrightarrow> length (event_history (apply_op b op)) \<le> 100"
  by (cases op)
     (auto simp: event_history_emit most_recent_def on_def off_def off_all_def Let_def
           split: option.splits)

lemma length_history_run_ops:
  "length (event_history b) \<le> 100 \<Longrightarrow> length (event_history (run_ops b ops)) \<le> 100"
  unfolding run_ops_def
  by (induction ops arbitrary: b) (auto simp: length_history_apply_op simp del: apply_op.simps)

text \<open>
  Claim C10. In every state of the bus, \<^verbatim>\<open>get_history(0)\<close> returns the whole stored
  history, because \<^verbatim>\<open>[-0:]\<close> is the whole list; in a state reached from a new bus by
  any calls that is at most 100 records.
\<close>

theorem get_history_zero_returns_all:
  "get_history b 0 = event_history b
   \<and> length (get_history (run_ops (EventBus_init t) ops) 0) \<le> 100"
  using length_history_run_ops [of "EventBus_init t" ops]
  by (simp add: get_history_def slice_from_zero EventBus_init_def)




section \<open>The dispatch of one publish\<close>

lemma dispatch_calls:
  "fst (dispatch hs event d ids) =
     map (\<lambda>h. \<lparr> inv_entry = h, inv_event = event, inv_data = d \<rparr>) hs"
  by (induction hs arbitrary: ids) (simp_all add: Let_def case_prod_beta)

lemma dispatch_logs:
  "fst (snd (dispatch hs event d ids)) = concat (map (logged_for event d) hs)"
  by (induction hs arbitrary: ids) (simp_all add: Let_def case_prod_beta)

lemma dispatch_once_ids:
  "snd (snd (dispatch hs event d ids)) = ids @ map e_id (filter e_once hs)"
  by (induction hs arbitrary: ids) (simp_all add: Let_def case_prod_beta)

lemma handlers_record_history [simp]: "handlers (record_history b event d) = handlers b"
  by (simp add: record_history_def Let_def)

lemma all_handlers_record_history [simp]:
  "all_handlers (record_history b event d) = all_handlers b"
  by (simp add: all_handlers_def fun_eq_iff)

lemma emit_calls:
  "fst (snd (emit b event d)) =
     map (\<lambda>h. \<lparr> inv_entry = h, inv_event = event,
                 inv_data = (case d of None \<Rightarrow> [] | Some x \<Rightarrow> x) \<rparr>) (all_handlers b event)"
  using dispatch_calls [of "all_handlers b event" event "case d of None \<Rightarrow> [] | Some x \<Rightarrow> x" "[]"]
  by (simp add: emit_def Let_def case_prod_beta)

lemma emit_logs:
  "snd (snd (emit b event d)) =
     concat (map (logged_for event (case d of None \<Rightarrow> [] | Some x \<Rightarrow> x)) (all_handlers b event))"
  using dispatch_logs [of "all_handlers b event" event "case d of None \<Rightarrow> [] | Some x \<Rightarrow> x" "[]"]
  by (simp add: emit_def Let_def case_prod_beta)

lemma emit_handlers:
  "handlers (fst (emit b event d)) =
     (let once_ids = map e_id (filter e_once (all_handlers b event))
      in if once_ids \<noteq> [] then remove_once once_ids ''*'' (remove_once once_ids event (handlers b))
         else handlers b)"
  using dispatch_once_ids [of "all_handlers b event" event "case d of None \<Rightarrow> [] | Some x \<Rightarrow> x" "[]"]
  by (simp add: emit_def Let_def case_prod_beta)


lemma sort_key_absorb_left:
  "sort_key f (sort_key f xs @ ys) = sort_key f (xs @ ys)"
proof (rule properties_for_sort_key)
  show "mset (sort_key f (xs @ ys)) = mset (sort_key f xs @ ys)" by simp
  show "sorted (map f (sort_key f (xs @ ys)))" by simp
  fix k
  have "filter (\<lambda>x. f x = f k) (sort_key f (xs @ ys)) = filter (\<lambda>x. f x = f k) (sort_key f xs @ ys)"
    by (simp add: sort_key_stable)
  then show "filter (\<lambda>x. f k = f x) (sort_key f (xs @ ys)) = filter (\<lambda>x. f k = f x) (sort_key f xs @ ys)"
    by (simp add: eq_commute)
qed

lemma sort_key_absorb_right:
  "sort_key f (xs @ sort_key f ys) = sort_key f (xs @ ys)"
proof (rule properties_for_sort_key)
  show "mset (sort_key f (xs @ ys)) = mset (xs @ sort_key f ys)" by simp
  show "sorted (map f (sort_key f (xs @ ys)))" by simp
  fix k
  have "filter (\<lambda>x. f x = f k) (sort_key f (xs @ ys)) = filter (\<lambda>x. f x = f k) (xs @ sort_key f ys)"
    by (simp add: sort_key_stable)
  then show "filter (\<lambda>x. f k = f x) (sort_key f (xs @ ys)) = filter (\<lambda>x. f k = f x) (xs @ sort_key f ys)"
    by (simp add: eq_commute)
qed

lemma subscribe_all_snoc:
  "subscribe_all b (regs @ [r]) =
     fst (on (subscribe_all b regs) (reg_event r) (reg_handler r) (reg_priority r) (reg_once r) (reg_source r))"
  by (simp add: subscribe_all_def)

lemma get_list_subscribe_all:
  "get_list (handlers (subscribe_all (EventBus_init t) regs)) event =
     sort_key e_priority (map entry_of (filter (\<lambda>r. reg_event r = event) regs))"
proof (induction regs rule: rev_induct)
  case Nil
  then show ?case by (simp add: subscribe_all_def EventBus_init_def get_list_def)
next
  case (snoc r regs)
  show ?case
  proof (cases "reg_event r = event")
    case True
    then show ?thesis
      using snoc.IH
      by (simp add: subscribe_all_snoc on_def Let_def get_list_def entry_of_def sort_key_absorb_left)
  next
    case False
    then show ?thesis
      using snoc.IH
      by (simp add: subscribe_all_snoc on_def Let_def get_list_def)
  qed
qed

text \<open>The priorities 10, 5, 5, 20 dispatch as 5 (first), 5 (second), 10, 20.\<close>

lemma four_priorities_order:
  "map (\<lambda>c. (e_priority (inv_entry c), obj_id (e_handler (inv_entry c))))
     (fst (snd (emit (subscribe_all fresh_bus four_priorities) ''e'' None)))
   = [(5, 2), (5, 3), (10, 1), (20, 4)]"
  by (simp add: emit_calls all_handlers_def get_list_subscribe_all entry_of_def reg_def quiet_def
        four_priorities_def fresh_bus_def)

text \<open>A wildcard listener of priority 1 runs before a listener of the event of priority 100.\<close>

lemma wildcard_and_exact_order:
  "map (obj_id \<circ> e_handler \<circ> inv_entry)
     (fst (snd (emit (subscribe_all fresh_bus wildcard_and_exact) ''e'' None))) = [2, 1]"
  by (simp add: emit_calls all_handlers_def get_list_subscribe_all entry_of_def reg_def quiet_def
        wildcard_and_exact_def fresh_bus_def)

lemma wildcard_first_code:
  "map (obj_id \<circ> e_handler \<circ> inv_entry)
     (fst (snd (emit (subscribe_all fresh_bus wildcard_first) ''e'' None))) = [2, 1]"
  by (simp add: emit_calls all_handlers_def get_list_subscribe_all entry_of_def reg_def quiet_def
        wildcard_first_def fresh_bus_def)

lemma wildcard_first_spec:
  "map (obj_id \<circ> e_handler) (spec_dispatch_order wildcard_first ''e'') = [1, 2]"
  by (simp add: spec_dispatch_order_def entry_of_def reg_def quiet_def wildcard_first_def)

text \<open>
  Claim C4, as stated, fails: with a wildcard listener registered before a listener of the event,
  both of priority 5, registration sequence would call the wildcard listener first; the code calls
  the listener of the event first.
\<close>

theorem dispatch_order_counterexample:
  "map inv_entry (fst (snd (emit (subscribe_all fresh_bus wildcard_first) ''e'' None)))
     \<noteq> spec_dispatch_order wildcard_first ''e''"
proof
  assume "map inv_entry (fst (snd (emit (subscribe_all fresh_bus wildcard_first) ''e'' None)))
     = spec_dispatch_order wildcard_first ''e''"
  then have "map (obj_id \<circ> e_handler)
       (map inv_entry (fst (snd (emit (subscribe_all fresh_bus wildcard_first) ''e'' None))))
     = map (obj_id \<circ> e_handler) (spec_dispatch_order wildcard_first ''e'')"
    by (rule arg_cong)
  then show False using wildcard_first_code wildcard_first_spec by simp
qed

text \<open>The first of three listeners raises; the second and the third are still called.\<close>

lemma first_raises_example:
  "map (obj_id \<circ> e_handler \<circ> inv_entry)
     (fst (snd (emit (subscribe_all fresh_bus first_raises) ''e'' None))) = [1, 2, 3]
   \<and> snd (snd (emit (subscribe_all fresh_bus first_raises) ''e'' None))
     = [\<lparr> log_event = ''e'', log_source = ''p1'', log_message = ''boom'' \<rparr>]"
  by (simp add: emit_calls emit_logs all_handlers_def get_list_subscribe_all entry_of_def
        quiet_def failing_def first_raises_def fresh_bus_def logged_for_def)

section \<open>Listener ids\<close>














section \<open>One-shot listeners\<close>

lemma get_list_remove_once:
  "get_list (remove_once ids k m) event =
     (if event = k then filter (\<lambda>h. e_id h \<notin> set ids) (get_list m event) else get_list m event)"
  by (auto simp: remove_once_def get_list_def split: option.splits)

lemma get_list_emit:
  "get_list (handlers (fst (emit b event d))) k =
     (if k = event \<or> k = ''*''
      then filter (\<lambda>h. e_id h \<notin> set (map e_id (filter e_once (all_handlers b event))))
             (get_list (handlers b) k)
      else get_list (handlers b) k)"
  by (cases "filter e_once (all_handlers b event) = []")
     (simp_all add: emit_handlers Let_def get_list_remove_once del: set_map set_filter)

text \<open>After a publish, no one-shot listener is left among the listeners of that event.\<close>

lemma no_once_after_emit:
  "h \<in> set (all_handlers (fst (emit b event d)) event) \<Longrightarrow> \<not> e_once h"
  by (auto simp: all_handlers_def get_list_emit)

lemma get_list_once_on_event:
  "get_list (handlers once_on_event) k =
     (if k = ''e'' then [\<lparr> e_id = ''e:1:'', e_handler = quiet 1, e_priority = 100,
                            e_once = True, e_source = [] \<rparr>] else [])"
  by (simp add: once_on_event_def on_def Let_def get_list_def fresh_bus_def EventBus_init_def
        listener_id_def quiet_def str_nat.simps digit_char_code)

lemma once_on_event_fires_once:
  "map (e_id \<circ> inv_entry) (fst (snd (emit once_on_event ''e'' None))) = [''e:1:'']
   \<and> get_list (handlers (fst (emit once_on_event ''e'' None))) ''e'' = []
   \<and> fst (snd (emit (fst (emit once_on_event ''e'' None)) ''e'' None)) = []"
proof -
  have a: "all_handlers once_on_event ''e'' =
      [\<lparr> e_id = ''e:1:'', e_handler = quiet 1, e_priority = 100, e_once = True, e_source = [] \<rparr>]"
    by (simp add: all_handlers_def get_list_once_on_event)
  have b: "get_list (handlers (fst (emit once_on_event ''e'' None))) k = []" for k
    by (simp add: get_list_emit a get_list_once_on_event)
  have c: "all_handlers (fst (emit once_on_event ''e'' None)) ''e'' = []"
    by (simp add: all_handlers_def b)
  show ?thesis
    by (simp add: emit_calls a b c)
qed

text \<open>
  Claim C7 at the wildcard: one one-shot listener is subscribed to \<^verbatim>\<open>"*"\<close>, and the first
  publish of \<^verbatim>\<open>"*"\<close> calls it twice, because the snapshot is the wildcard list followed by
  the wildcard list.
\<close>

theorem once_on_wildcard_called_twice:
  "map e_id (get_list (handlers once_on_wildcard) ''*'') = [''*:1:'']
   \<and> map (e_id \<circ> inv_entry) (fst (snd (emit once_on_wildcard ''*'' None))) = [''*:1:'', ''*:1:'']"
  by (simp add: emit_calls all_handlers_def)
     (simp add: once_on_wildcard_def on_def Let_def get_list_def fresh_bus_def EventBus_init_def
        listener_id_def quiet_def str_nat.simps digit_char_code)

section \<open>The dispatch order in reachable states\<close>

lemma run_ops_snoc: "run_ops b (ops @ [op]) = apply_op (run_ops b ops) op"
  by (simp add: run_ops_def)

lemma live_snoc: "live (ops @ [op]) = live_step (live ops) op"
  by (simp add: live_def)

lemma get_list_off:
  "get_list (handlers (off b event handler source)) k =
     (if k = event
      then (case handler of
              Some f \<Rightarrow> filter (\<lambda>h. obj_id (e_handler h) \<noteq> obj_id f) (get_list (handlers b) k)
            | None \<Rightarrow>
                (case source of
                   Some s \<Rightarrow> filter (\<lambda>h. e_source h \<noteq> s) (get_list (handlers b) k)
                 | None \<Rightarrow> []))
      else get_list (handlers b) k)"
  by (auto simp: off_def get_list_def split: option.splits)

lemma get_list_off_all:
  "get_list (handlers (off_all b source)) k = filter (\<lambda>h. e_source h \<noteq> source) (get_list (handlers b) k)"
  by (cases "handlers b k") (simp_all add: off_all_def get_list_def)

lemma get_list_on:
  "get_list (handlers (fst (on b event handler priority once source))) k =
     (if k = event
      then sort_key e_priority (get_list (handlers b) k @
         [\<lparr> e_id = listener_id event handler source, e_handler = handler,
            e_priority = priority, e_once = once, e_source = source \<rparr>])
      else get_list (handlers b) k)"
  by (simp add: on_def Let_def get_list_def)

lemma once_ids_sorted:
  "set (map e_id (filter e_once (sort_key f (sort_key f xs @ sort_key f ys))))
     = set (map e_id (filter e_once (xs @ ys)))"
  by auto

lemma get_list_run_ops:
  "get_list (handlers (run_ops (EventBus_init t) ops)) k = sort_key e_priority (live ops k)"
proof (induction ops arbitrary: k rule: rev_induct)
  case Nil
  then show ?case by (simp add: run_ops_def live_def EventBus_init_def get_list_def)
next
  case (snoc op ops)
  let ?b = "run_ops (EventBus_init t) ops"
  show ?case
  proof (cases op)
    case (On event handler priority once source)
    then show ?thesis
      by (simp add: run_ops_snoc live_snoc get_list_on snoc.IH sort_key_absorb_left)
  next
    case (Off event handler source)
    then show ?thesis
      by (simp add: run_ops_snoc live_snoc get_list_off snoc.IH filter_sort split: option.splits)
  next
    case (OffAll source)
    then show ?thesis
      by (simp add: run_ops_snoc live_snoc get_list_off_all snoc.IH filter_sort)
  next
    case (Emit event d)
    have "set (map e_id (filter e_once (all_handlers ?b event)))
        = set (map e_id (filter e_once (live ops event @ live ops ''*'')))"
      unfolding all_handlers_def snoc.IH by (rule once_ids_sorted)
    then show ?thesis
      using Emit
      by (simp add: run_ops_snoc live_snoc get_list_emit snoc.IH filter_sort del: set_map set_filter set_append)
  next
    case (Clock t')
    then show ?thesis
      by (simp add: run_ops_snoc live_snoc snoc.IH)
  qed
qed

text \<open>
  Claim C4, amended. In every state reached from a new bus by any calls, a publish of an event
  other than the wildcard calls the listeners then subscribed to that event and to the wildcard,
  in the order of priority ascending; among equal priorities the listeners of the event come
  before those of the wildcard, and within each of the two groups the earlier registration comes
  first.
\<close>

theorem dispatch_order_exact_before_wildcard:
  "event \<noteq> ''*'' \<Longrightarrow>
     map inv_entry (fst (snd (emit (run_ops (EventBus_init t) ops) event d))) =
       sort_key e_priority (live ops event @ live ops ''*'')"
  by (simp add: emit_calls all_handlers_def get_list_run_ops comp_def
        sort_key_absorb_left sort_key_absorb_right)

text \<open>The wildcard listener of priority 1 runs before the listener of priority 100.\<close>

theorem dispatch_order_exact_before_wildcard_witness:
  "''e'' \<noteq> ''*''
   \<and> map (obj_id \<circ> e_handler) (live [On ''e'' (quiet 1) 100 False [], On ''*'' (quiet 2) 1 False []] ''e'') = [1]
   \<and> map (obj_id \<circ> e_handler) (live [On ''e'' (quiet 1) 100 False [], On ''*'' (quiet 2) 1 False []] ''*'') = [2]
   \<and> map (obj_id \<circ> e_handler \<circ> inv_entry)
       (fst (snd (emit (run_ops (EventBus_init ''09:00:00'')
          [On ''e'' (quiet 1) 100 False [], On ''*'' (quiet 2) 1 False []]) ''e'' None)))
     = [2, 1]"
  using dispatch_order_exact_before_wildcard [of "''e''" "''09:00:00''"
      "[On ''e'' (quiet 1) 100 False [], On ''*'' (quiet 2) 1 False []]" None]
  by (simp add: live_def quiet_def flip: map_map)

section \<open>The plugin manager\<close>

lemma update_config_simps [simp]:
  "bus (update_config m name upd) = bus m"
  "plugins (update_config m name upd) = plugins m"
  "file_writable (update_config m name upd) = file_writable m"
  by (simp_all add: update_config_def save_configs_def Let_def)








text \<open>What \<^verbatim>\<open>activate_plugin\<close> leaves alone.\<close>

lemma activate_plugin_file_writable [simp]:
  "file_writable (fst (activate_plugin m name)) = file_writable m"
  by (simp add: activate_plugin_def Let_def case_prod_beta split: option.splits outcome.splits)



lemma load_plugin_fresh:
  assumes "pf_module file = Module attrs"
    and "find_plugin_class (''plugins.'' @ d @ ''.plugin'') attrs = Some cls"
    and "construct cls = Inr inst"
    and "plugins m (meta_name (get_meta inst)) = None"
  shows "load_plugin m d file =
     Inr ((if saved_enabled_of (configs m) (meta_name (get_meta inst))
           then fst (activate_plugin (registered m file inst) (meta_name (get_meta inst)))
           else registered m file inst)
          \<lparr> bus := fst (emit
             (bus (if saved_enabled_of (configs m) (meta_name (get_meta inst))
                   then fst (activate_plugin (registered m file inst) (meta_name (get_meta inst)))
                   else registered m file inst))
             ''plugin.loaded''
             (Some [(''name'', VStr (meta_name (get_meta inst))),
                    (''meta'', VDict (to_dict (get_meta inst)))])) \<rparr>)"
  using assms by (simp add: load_plugin_def Let_def registered_def)




lemma handlers_emit_no_once:
  "filter e_once (all_handlers b event) = [] \<Longrightarrow> handlers (fst (emit b event d)) = handlers b"
  by (simp add: emit_handlers Let_def)




lemma new_manager_plugins [simp]: "plugins new_manager = Map.empty"
  by (simp add: new_manager_def PluginManager_init_def)









lemma new_manager_simps:
  "file_writable new_manager"
  "configs new_manager = Map.empty"
  "bus new_manager = fresh_bus"
  by (simp_all add: new_manager_def PluginManager_init_def load_configs_def)

lemma handlers_fresh_bus [simp]: "handlers fresh_bus = Map.empty"
  by (simp add: fresh_bus_def EventBus_init_def)

lemma all_handlers_empty: "handlers b = Map.empty \<Longrightarrow> all_handlers b event = []"
  by (simp add: all_handlers_def get_list_def)

lemma handlers_emit_empty: "handlers b = Map.empty \<Longrightarrow> handlers (fst (emit b event d)) = Map.empty"
  by (simp add: handlers_emit_no_once all_handlers_empty)





lemma leaky_plugin_simps [simp]:
  "meta_name (get_meta leaky_plugin) = ''leaky''"
  "activate leaky_plugin = ([On ''e'' (quiet 1) 100 False ''leaky''], Raised ''boom'')"
  by (simp_all add: leaky_plugin_def simple_plugin_def meta_named_def)

lemma leaky_file_class:
  "pf_module leaky_file =
     Module [base_import, plugin_class ''LeakyPlugin'' ''plugins.leaky.plugin'' leaky_plugin]"
  "find_plugin_class (''plugins.'' @ ''leaky'' @ ''.plugin'')
     [base_import, plugin_class ''LeakyPlugin'' ''plugins.leaky.plugin'' leaky_plugin]
     = Some (plugin_class ''LeakyPlugin'' ''plugins.leaky.plugin'' leaky_plugin)"
  "construct (plugin_class ''LeakyPlugin'' ''plugins.leaky.plugin'' leaky_plugin) = Inr leaky_plugin"
  by (simp_all add: leaky_file_def is_plugin_class_def plugin_class_def base_import_def startswith_def)

lemma leaky_registered_eq:
  "leaky_registered =
     (registered new_manager leaky_file leaky_plugin)
       \<lparr> bus := fst (emit fresh_bus ''plugin.loaded''
           (Some [(''name'', VStr ''leaky''), (''meta'', VDict (to_dict (get_meta leaky_plugin)))])) \<rparr>"
  using load_plugin_fresh [OF leaky_file_class, of new_manager]
  by (simp add: leaky_registered_def new_manager_simps saved_enabled_of_def registered_def)

text \<open>
  Claim C2 at a plugin whose \<^verbatim>\<open>activate()\<close> subscribes one listener and then raises:
  after \<^verbatim>\<open>activate_plugin\<close> the plugin is not active and the bus still holds the listener
  tagged with its name; \<^verbatim>\<open>deactivate_plugin\<close> then returns at once and changes nothing.
\<close>

theorem failed_activation_leaves_listener:
  "map_option r_instance (plugins leaky_registered ''leaky'') = Some leaky_plugin
   \<and> \<not> is_active leaky_registered ''leaky''
   \<and> tagged (bus leaky_registered) ''leaky'' ''e'' = []
   \<and> \<not> snd (activate_plugin leaky_registered ''leaky'')
   \<and> \<not> is_active (fst (activate_plugin leaky_registered ''leaky'')) ''leaky''
   \<and> map e_id (tagged (bus (fst (activate_plugin leaky_registered ''leaky''))) ''leaky'' ''e'')
       = [''e:1:leaky'']
   \<and> deactivate_plugin (fst (activate_plugin leaky_registered ''leaky'')) ''leaky''
       = (fst (activate_plugin leaky_registered ''leaky''), True)"
proof -
  let ?b0 = "fst (emit fresh_bus ''plugin.loaded''
           (Some [(''name'', VStr ''leaky''), (''meta'', VDict (to_dict (get_meta leaky_plugin)))]))"
  let ?b1 = "run_ops ?b0 [On ''e'' (quiet 1) 100 False ''leaky'']"
  let ?ent = "\<lparr> r_instance = leaky_plugin, r_config = Map.empty, r_meta = get_meta leaky_plugin,
       r_active = False, r_error = None, r_dir = ''plugins/leaky'' \<rparr>"
  have h0: "handlers ?b0 = Map.empty" by (simp add: handlers_emit_empty)
  have p: "plugins leaky_registered ''leaky'' = Some ?ent"
    by (simp add: leaky_registered_eq registered_def saved_config_of_def new_manager_simps
          leaky_file_def leaky_plugin_def simple_plugin_def meta_named_def)
  have b: "bus leaky_registered = ?b0"
    by (simp add: leaky_registered_eq)
  have act: "activate_plugin leaky_registered ''leaky'' =
      (leaky_registered\<lparr> bus := fst (emit ?b1 ''plugin.error''
            (Some [(''name'', VStr ''leaky''), (''error'', VStr ''boom'')])),
          plugins := (plugins leaky_registered)(''leaky'' \<mapsto> ?ent\<lparr> r_error := Some ''boom'' \<rparr>) \<rparr>, False)"
    by (simp add: activate_plugin_def p b Let_def)
  have g1: "get_list (handlers ?b1) k =
     (if k = ''e'' then [\<lparr> e_id = ''e:1:leaky'', e_handler = quiet 1, e_priority = 100,
                           e_once = False, e_source = ''leaky'' \<rparr>] else [])" for k
    by (simp add: run_ops_def on_def Let_def get_list_def h0 listener_id_def quiet_def
          str_nat.simps digit_char_code)
  have a: "filter e_once (all_handlers ?b1 ''plugin.error'') = []"
    by (simp only: all_handlers_def g1) simp
  have bact: "bus (fst (activate_plugin leaky_registered ''leaky'')) =
      fst (emit ?b1 ''plugin.error'' (Some [(''name'', VStr ''leaky''), (''error'', VStr ''boom'')]))"
    by (simp add: act)
  have t: "map e_id (tagged (bus (fst (activate_plugin leaky_registered ''leaky''))) ''leaky'' ''e'')
       = [''e:1:leaky'']"
    by (simp only: bact tagged_def handlers_emit_no_once [OF a] g1) simp
  have t0: "tagged (bus leaky_registered) ''leaky'' ''e'' = []"
    by (simp add: b tagged_def get_list_def h0)
  have d: "deactivate_plugin (fst (activate_plugin leaky_registered ''leaky'')) ''leaky''
       = (fst (activate_plugin leaky_registered ''leaky''), True)"
    by (simp add: act deactivate_plugin_def)
  show ?thesis
    using t t0 d by (simp add: act is_active_def p)
qed

end
